theory Spec2Isabelle
  imports Main "HOL-Library.Multiset"
begin

section \<open>Language selector scoring (vs/editor/common/languageSelector.ts)\<close>

text \<open>
  JavaScript strings are modelled as \<^typ>\<open>string\<close>; one \<^typ>\<open>char\<close> stands for one
  code unit. An optional field (\<open>field?: T\<close>) is a \<^typ>\<open>'a option\<close>, \<open>None\<close> being
  \<open>undefined\<close>. The tests \<open>if (scheme)\<close>, \<open>if (language)\<close>, \<open>if (pattern)\<close> and
  \<open>if (notebook)\<close> are JavaScript truthiness tests: \<open>undefined\<close> and the empty string are
  falsy, every object is truthy.
\<close>

text \<open>\<open>IRelativePattern\<close> of vs/base/common/glob: an object with a \<open>base\<close> and a \<open>pattern\<close>.\<close>

record IRelativePattern =
  rp_base :: string
  rp_pattern :: string

text \<open>The type \<open>string | IRelativePattern\<close> of the \<open>pattern\<close> fields.\<close>

datatype GlobPattern = PatString string | PatRelative IRelativePattern

text \<open>
  The two imported functions \<open>match\<close> (as \<open>matchGlobPattern\<close>, vs/base/common/glob) and
  \<open>normalize\<close> (vs/base/common/path) are parameters of the model.
\<close>

record GlobEnv =
  matchGlobPattern :: "GlobPattern \<Rightarrow> string \<Rightarrow> bool"
  normalize :: "string \<Rightarrow> string"

text \<open>The two members of \<open>URI\<close> that the scorer reads.\<close>

record URI =
  uri_scheme :: string
  uri_fsPath :: string

record NotebookFilter =
  nb_notebookType :: "string option"
  nb_scheme :: "string option"
  nb_pattern :: "GlobPattern option"

text \<open>The type \<open>string | NotebookFilter\<close> of the \<open>notebook\<close> field.\<close>

datatype NotebookClause = NbString string | NbFilter NotebookFilter

record LanguageFilter =
  language :: "string option"
  scheme :: "string option"
  pattern :: "GlobPattern option"
  notebook :: "NotebookClause option"
  hasAccessToAllModels :: "bool option"
  exclusive :: "bool option"

text \<open>
  \<open>LanguageSelector | undefined\<close>. The source type lists strings and filters as array
  elements; the function recurses through \<open>score\<close> on every element, so the model lets an
  element be any selector.
\<close>

datatype LanguageSelector =
    SelString string
  | SelFilter LanguageFilter
  | SelArray "LanguageSelector list"
  | SelUndefined

record NotebookInfo =
  notebookUri :: URI
  notebookType :: string

fun truthy_string :: "string option \<Rightarrow> bool" where
  "truthy_string None = False"
| "truthy_string (Some s) = (s \<noteq> [])"

fun truthy_pattern :: "GlobPattern option \<Rightarrow> bool" where
  "truthy_pattern None = False"
| "truthy_pattern (Some (PatString s)) = (s \<noteq> [])"
| "truthy_pattern (Some (PatRelative p)) = True"

fun truthy_notebook :: "NotebookClause option \<Rightarrow> bool" where
  "truthy_notebook None = False"
| "truthy_notebook (Some (NbString s)) = (s \<noteq> [])"
| "truthy_notebook (Some (NbFilter f)) = True"

fun truthy_bool :: "bool option \<Rightarrow> bool" where
  "truthy_bool None = False"
| "truthy_bool (Some b) = b"

text \<open>
  Lines 130-140: a string pattern is used as it is, a relative pattern gets its base
  normalized.
\<close>

fun normalizedPattern :: "GlobEnv \<Rightarrow> GlobPattern \<Rightarrow> GlobPattern" where
  "normalizedPattern G (PatString s) = PatString s"
| "normalizedPattern G (PatRelative p) = PatRelative (p\<lparr>rp_base := normalize G (rp_base p)\<rparr>)"

text \<open>
  Line 142, \<open>normalizedPattern === candidateUri.fsPath || matchGlobPattern(...)\<close>: strict
  equality of an object with a string is false.
\<close>

fun patternMatches :: "GlobEnv \<Rightarrow> GlobPattern \<Rightarrow> string \<Rightarrow> bool" where
  "patternMatches G (PatString s) fsPath = (s = fsPath \<or> matchGlobPattern G (PatString s) fsPath)"
| "patternMatches G (PatRelative p) fsPath = matchGlobPattern G (PatRelative p) fsPath"

text \<open>
  \<open>_scoreOne\<close> (lines 105-150). Each of its three blocks either leaves the function with
  \<open>return 0\<close> (here \<open>None\<close>) or goes on with a value of the local variable \<open>ret\<close>
  (here \<open>Some ret\<close>).
\<close>

text \<open>Lines 109-117.\<close>

definition schemeGate :: "string option \<Rightarrow> URI \<Rightarrow> int \<Rightarrow> int option" where
  "schemeGate sch candidateUri ret =
    (if truthy_string sch then
       (if the sch = uri_scheme candidateUri then Some 10
        else if the sch = ''*'' then Some 5
        else None)
     else Some ret)"

text \<open>Lines 119-127.\<close>

definition languageGate :: "string option \<Rightarrow> string \<Rightarrow> int \<Rightarrow> int option" where
  "languageGate lang candidateLanguage ret =
    (if truthy_string lang then
       (if the lang = candidateLanguage then Some 10
        else if the lang = ''*'' then Some (max ret 5)
        else None)
     else Some ret)"

text \<open>Lines 129-147.\<close>

definition patternGate :: "GlobEnv \<Rightarrow> GlobPattern option \<Rightarrow> URI \<Rightarrow> int \<Rightarrow> int option" where
  "patternGate G pat candidateUri ret =
    (if truthy_pattern pat then
       (if patternMatches G (normalizedPattern G (the pat)) (uri_fsPath candidateUri) then Some 10
        else None)
     else Some ret)"

definition scoreOne ::
  "GlobEnv \<Rightarrow> string option \<Rightarrow> string option \<Rightarrow> GlobPattern option \<Rightarrow> URI \<Rightarrow> string \<Rightarrow> int" where
  "scoreOne G sch lang pat candidateUri candidateLanguage =
    (case schemeGate sch candidateUri 0 of
       None \<Rightarrow> 0
     | Some ret \<Rightarrow>
        (case languageGate lang candidateLanguage ret of
           None \<Rightarrow> 0
         | Some ret \<Rightarrow>
            (case patternGate G pat candidateUri ret of
               None \<Rightarrow> 0
             | Some ret \<Rightarrow> ret)))"

text \<open>Lines 77-82: the notebook sub-score of a filter whose \<open>notebook\<close> is truthy.\<close>

fun notebookScoreOf :: "GlobEnv \<Rightarrow> NotebookClause \<Rightarrow> NotebookInfo \<Rightarrow> int" where
  "notebookScoreOf G (NbString nb) info =
     scoreOne G None (Some nb) None (notebookUri info) (notebookType info)"
| "notebookScoreOf G (NbFilter nb) info =
     scoreOne G (nb_scheme nb) (nb_notebookType nb) (nb_pattern nb)
       (notebookUri info) (notebookType info)"

text \<open>
  \<open>score\<close> (lines 32-103). The loop over an array selector (lines 36-46) is \<open>score_loop\<close>,
  with the running maximum \<open>ret\<close> as accumulator. Besides the value it returns the
  elements on which the loop has called \<open>score\<close>, in order, so that a statement about which
  elements are evaluated can be made.
\<close>

fun score ::
  "GlobEnv \<Rightarrow> LanguageSelector \<Rightarrow> URI \<Rightarrow> string \<Rightarrow> bool \<Rightarrow> NotebookInfo option \<Rightarrow> int"
and score_loop ::
  "GlobEnv \<Rightarrow> int \<Rightarrow> LanguageSelector list \<Rightarrow> URI \<Rightarrow> string \<Rightarrow> bool \<Rightarrow> NotebookInfo option
     \<Rightarrow> int \<times> LanguageSelector list" where
  "score G (SelArray fs) candidateUri candidateLanguage candidateIsSynchronized candidateNotebookInfo =
     fst (score_loop G 0 fs candidateUri candidateLanguage candidateIsSynchronized candidateNotebookInfo)"
| "score G (SelString s) candidateUri candidateLanguage candidateIsSynchronized candidateNotebookInfo =
     (if \<not> candidateIsSynchronized then 0
      else if s = ''*'' then 5
      else if s = candidateLanguage then 10
      else 0)"
| "score G (SelFilter f) candidateUri candidateLanguage candidateIsSynchronized candidateNotebookInfo =
     (if \<not> candidateIsSynchronized \<and> \<not> truthy_bool (hasAccessToAllModels f) then 0
      else if truthy_notebook (notebook f) then
        (case candidateNotebookInfo of
           None \<Rightarrow> 0
         | Some info \<Rightarrow>
            (let notebookScore = notebookScoreOf G (the (notebook f)) info in
             if notebookScore = 0 then 0
             else if \<not> truthy_string (scheme f) \<and> \<not> truthy_string (language f)
                     \<and> \<not> truthy_pattern (pattern f) then notebookScore
             else
               (let documentScore =
                  scoreOne G (scheme f) (language f) (pattern f) candidateUri candidateLanguage in
                if documentScore = 0 then 0
                else max notebookScore documentScore)))
      else scoreOne G (scheme f) (language f) (pattern f) candidateUri candidateLanguage)"
| "score G SelUndefined candidateUri candidateLanguage candidateIsSynchronized candidateNotebookInfo = 0"
| "score_loop G ret [] candidateUri candidateLanguage candidateIsSynchronized candidateNotebookInfo =
     (ret, [])"
| "score_loop G ret (f # fs) candidateUri candidateLanguage candidateIsSynchronized candidateNotebookInfo =
     (let v = score G f candidateUri candidateLanguage candidateIsSynchronized candidateNotebookInfo in
      if v = 10 then (v, [f])
      else
        (case score_loop G (if v > ret then v else ret) fs
                candidateUri candidateLanguage candidateIsSynchronized candidateNotebookInfo of
           (r, evaluated) \<Rightarrow> (r, f # evaluated)))"

subsection \<open>The gates of the single-clause scorer in the words of the spec\<close>








subsection \<open>Concrete selectors and candidates\<close>

text \<open>A glob matcher that matches nothing and a \<open>normalize\<close> that changes nothing.\<close>

definition exampleGlobEnv :: GlobEnv where
  "exampleGlobEnv = \<lparr>matchGlobPattern = (\<lambda>p path. False), normalize = (\<lambda>p. p)\<rparr>"

definition fileUri :: URI where
  "fileUri = \<lparr>uri_scheme = ''file'', uri_fsPath = ''/a.rs''\<rparr>"

definition httpUri :: URI where
  "httpUri = \<lparr>uri_scheme = ''http'', uri_fsPath = ''/a.rs''\<rparr>"

text \<open>\<open>{ notebook: 'jupyter-notebook' }\<close>\<close>

definition jupyterFilter :: LanguageFilter where
  "jupyterFilter = \<lparr>language = None, scheme = None, pattern = None,
     notebook = Some (NbString ''jupyter-notebook''), hasAccessToAllModels = None,
     exclusive = None\<rparr>"

text \<open>\<open>{ notebook: 'jupyter-notebook', language: '*' }\<close>\<close>

definition jupyterAnyLanguageFilter :: LanguageFilter where
  "jupyterAnyLanguageFilter = \<lparr>language = Some ''*'', scheme = None, pattern = None,
     notebook = Some (NbString ''jupyter-notebook''), hasAccessToAllModels = None,
     exclusive = None\<rparr>"

definition jupyterInfo :: NotebookInfo where
  "jupyterInfo = \<lparr>notebookUri = fileUri, notebookType = ''jupyter-notebook''\<rparr>"

text \<open>\<open>{ scheme: 'file', language: 'rust' }\<close>\<close>

definition rustFileFilter :: LanguageFilter where
  "rustFileFilter = \<lparr>language = Some ''rust'', scheme = Some ''file'', pattern = None,
     notebook = None, hasAccessToAllModels = None, exclusive = None\<rparr>"

text \<open>\<open>{ hasAccessToAllModels: true, language: '*' }\<close>\<close>

definition starFilter :: LanguageFilter where
  "starFilter = \<lparr>language = Some ''*'', scheme = None, pattern = None,
     notebook = None, hasAccessToAllModels = Some True, exclusive = None\<rparr>"

section \<open>Indentation line processing (languages/supports/indentationLineProcessor.ts)\<close>

text \<open>
  Modelled from the spec: the enumeration \<open>StandardTokenType\<close> of the absent
  \<open>encodedTokenAttributes\<close> source, the "semantic standard token type tag (ordinary,
  String, RegExp, Comment)" of a token.
\<close>

datatype StandardTokenType = Other | Comment | String | RegEx

text \<open>
  Modelled from the spec: the token metadata of the absent \<open>encodedTokenAttributes\<close> and
  \<open>LineTokens\<close> sources. The spec gives each token "a semantic standard token type tag
  and an attached language id"; the metadata number is kept as these two attributes.
\<close>

record TokenMetadata =
  md_languageId :: string
  md_tokenType :: StandardTokenType

text \<open>
  Modelled from the spec: the token table \<open>IViewLineTokens\<close> / \<open>LineTokens\<close>, whose source is
  absent. Following the spec it is the text of the line and "an ordered sequence of
  \<open>{endOffset, metadata}\<close> records"; a token starts where the one before it ends, the first
  at offset 0.
\<close>

record LineTokens =
  lt_tokens :: "(int \<times> TokenMetadata) list"
  lt_text :: string

text \<open>\<open>String.prototype.substring\<close>: both indices are clamped to the string, then ordered.\<close>

definition substring :: "string \<Rightarrow> int \<Rightarrow> int \<Rightarrow> string" where
  "substring s a b =
    (let n = int (length s);
         a' = min (max a 0) n;
         b' = min (max b 0) n;
         lo = min a' b';
         hi = max a' b'
     in take (nat (hi - lo)) (drop (nat lo) s))"

text \<open>
  Modelled from the spec: \<open>getCount\<close> of the absent token table, the number of its
  records.
\<close>

definition getCount :: "LineTokens \<Rightarrow> nat" where
  "getCount tokens = length (lt_tokens tokens)"

text \<open>
  Modelled from the spec: \<open>getEndOffset\<close> of the absent token table, the end offset of the
  record at an index. The source calls it with the indices that \<open>forEach\<close> passes, which
  are below \<open>getCount\<close>.
\<close>

definition getEndOffset :: "LineTokens \<Rightarrow> nat \<Rightarrow> int" where
  "getEndOffset tokens tokenIndex = fst (lt_tokens tokens ! tokenIndex)"

text \<open>
  Modelled from the spec: the start offset of a token of the absent token table, the end
  offset of the token before it, and 0 for the first.
\<close>

definition getStartOffset :: "LineTokens \<Rightarrow> nat \<Rightarrow> int" where
  "getStartOffset tokens tokenIndex =
    (if tokenIndex > 0 then getEndOffset tokens (tokenIndex - 1) else 0)"

text \<open>Modelled from the spec: \<open>getMetadata\<close> of the absent token table.\<close>

definition getMetadata :: "LineTokens \<Rightarrow> nat \<Rightarrow> TokenMetadata" where
  "getMetadata tokens tokenIndex = snd (lt_tokens tokens ! tokenIndex)"

text \<open>
  Modelled from the spec: \<open>getStandardTokenType\<close> of the absent token table, the type tag
  of the token's metadata.
\<close>

definition getStandardTokenType :: "LineTokens \<Rightarrow> nat \<Rightarrow> StandardTokenType" where
  "getStandardTokenType tokens tokenIndex = md_tokenType (getMetadata tokens tokenIndex)"

text \<open>
  Modelled from the spec: \<open>getTokenText\<close> of the absent token table, the text of the line
  between the token's start offset and its end offset.
\<close>

definition getTokenText :: "LineTokens \<Rightarrow> nat \<Rightarrow> string" where
  "getTokenText tokens tokenIndex =
    substring (lt_text tokens) (getStartOffset tokens tokenIndex) (getEndOffset tokens tokenIndex)"

text \<open>Modelled from the spec: \<open>getLineContent\<close> of the absent token table.\<close>

definition getLineContent :: "LineTokens \<Rightarrow> string" where
  "getLineContent tokens = lt_text tokens"

text \<open>
  Modelled from the spec: \<open>getLanguageId\<close> of the absent token table, the language id
  attached to a token. The source calls \<open>getLanguageId(0)\<close>, also on a table without
  tokens; the spec does not say what the language is then, and the model gives the id of
  the null language.
\<close>

definition NULL_LANGUAGE_ID :: string where
  "NULL_LANGUAGE_ID = ''vs.editor.nullLanguage''"

definition getLanguageId :: "LineTokens \<Rightarrow> nat \<Rightarrow> string" where
  "getLanguageId tokens tokenIndex =
    (if tokenIndex < getCount tokens then md_languageId (getMetadata tokens tokenIndex)
     else NULL_LANGUAGE_ID)"

text \<open>
  One bracket pair of a language configuration (\<open>RichEditBracket\<close>): its \<open>open\<close> and its
  \<open>close\<close> strings.
\<close>

record RichEditBracket =
  rb_open :: "string list"
  rb_close :: "string list"

text \<open>
  \<open>languageConfigurationService.getLanguageConfiguration(languageId).brackets\<close>, a parameter
  of the model: \<open>None\<close> when the language has no bracket configuration, else the list
  \<open>brackets.brackets\<close>.
\<close>

type_synonym LanguageConfigurationService = "string \<Rightarrow> RichEditBracket list option"

record ProcessedLineData =
  processedLine :: string
  processedLineTokens :: LineTokens

text \<open>Lines 219-223.\<close>

fun isTokenTypeToProcess :: "StandardTokenType \<Rightarrow> bool" where
  "isTokenTypeToProcess tokenType =
     (tokenType = String \<or> tokenType = RegEx \<or> tokenType = Comment)"

text \<open>
  Lines 227-228 and 231-232, \<open>processedLine.replace(new RegExp(escapeStringForRegex(bracket),
  'g'), '')\<close>. \<open>escapeStringForRegex\<close> (lines 236-245) puts a backslash before every
  character that is special in a regular expression, so the expression matches the bracket
  string literally. A global replace scans the text from the left: where the bracket string
  occurs it is dropped and the scan goes on behind the occurrence, elsewhere one character is
  kept. The expression of an empty bracket string matches the empty string everywhere, and
  replacing that by the empty string leaves the text as it is.
\<close>

function removeOccurrences :: "string \<Rightarrow> string \<Rightarrow> string" where
  "removeOccurrences bracket [] = []"
| "removeOccurrences bracket (c # cs) =
     (if bracket \<noteq> [] \<and> take (length bracket) (c # cs) = bracket
      then removeOccurrences bracket (drop (length bracket) (c # cs))
      else c # removeOccurrences bracket cs)"
  by pat_completeness auto
termination
  by (relation "measure (\<lambda>(bracket, text). length text)") auto

text \<open>Lines 224-235: first every open bracket, in order, then every close bracket.\<close>

definition removeBracketsFromText :: "string list \<Rightarrow> string list \<Rightarrow> string \<Rightarrow> string" where
  "removeBracketsFromText openBrackets closedBrackets line =
    (let processedLine = line;
         processedLine = foldl (\<lambda>processedLine bracket. removeOccurrences bracket processedLine)
                           processedLine openBrackets;
         processedLine = foldl (\<lambda>processedLine bracket. removeOccurrences bracket processedLine)
                           processedLine closedBrackets
     in processedLine)"

text \<open>The three variables that the loop of lines 259-274 updates.\<close>

record LoopState =
  st_offset :: int
  st_processedLine :: string
  st_processedTokensArray :: "(int \<times> TokenMetadata) list"

text \<open>
  The callback of \<open>tokens.forEach\<close> (lines 259-274). The end offset is computed and pushed
  (lines 263-265) before \<open>offset\<close> is updated (line 270).
\<close>

definition forEachCallback ::
  "string list \<Rightarrow> string list \<Rightarrow> LineTokens \<Rightarrow> LoopState \<Rightarrow> nat \<Rightarrow> LoopState" where
  "forEachCallback openBrackets closedBrackets tokens st tokenIndex =
    (let tokenType = getStandardTokenType tokens tokenIndex;
         text = getTokenText tokens tokenIndex;
         metadata = getMetadata tokens tokenIndex;
         endOffset = getEndOffset tokens tokenIndex - st_offset st;
         st = st\<lparr>st_processedTokensArray := st_processedTokensArray st @ [(endOffset, metadata)]\<rparr>
     in if isTokenTypeToProcess tokenType then
          (let processedText = removeBracketsFromText openBrackets closedBrackets text
           in st\<lparr>st_processedLine := st_processedLine st @ processedText,
                 st_offset := st_offset st + (int (length text) - int (length processedText))\<rparr>)
        else st\<lparr>st_processedLine := st_processedLine st @ text\<rparr>)"

text \<open>\<open>new Uint32Array(processedTokensArray)\<close>: every number is taken modulo \<open>2^32\<close>.\<close>

definition toUint32 :: "int \<Rightarrow> int" where
  "toUint32 x = x mod 4294967296"

definition openBracketsOf :: "RichEditBracket list \<Rightarrow> string list" where
  "openBracketsOf brackets = concat (map rb_open brackets)"

definition closedBracketsOf :: "RichEditBracket list \<Rightarrow> string list" where
  "closedBracketsOf brackets = concat (map rb_close brackets)"

text \<open>
  \<open>getProcessedLineAndTokens\<close> (lines 216-278). \<open>tokens.forEach\<close> calls the callback on the
  token indices \<open>0, ..., getCount() - 1\<close> in order.
\<close>

definition getProcessedLineAndTokens ::
  "LanguageConfigurationService \<Rightarrow> LineTokens \<Rightarrow> ProcessedLineData" where
  "getProcessedLineAndTokens languageConfigurationService tokens =
    (let languageId = getLanguageId tokens 0 in
     case languageConfigurationService languageId of
       None \<Rightarrow> \<lparr>processedLine = getLineContent tokens, processedLineTokens = tokens\<rparr>
     | Some brackets \<Rightarrow>
        (let openBrackets = openBracketsOf brackets;
             closedBrackets = closedBracketsOf brackets;
             st = foldl (forEachCallback openBrackets closedBrackets tokens)
                    \<lparr>st_offset = 0, st_processedLine = [], st_processedTokensArray = []\<rparr>
                    [0 ..< getCount tokens];
             processedTokens = map (\<lambda>(endOffset, metadata). (toUint32 endOffset, metadata))
                                 (st_processedTokensArray st)
         in \<lparr>processedLine = st_processedLine st,
             processedLineTokens =
               \<lparr>lt_tokens = processedTokens, lt_text = st_processedLine st\<rparr>\<rparr>))"

subsection \<open>The context around a range (\<open>IndentationContextProcessor\<close>)\<close>

text \<open>
  \<open>Range\<close> (vs/editor/common/core/range): line numbers and columns, both counted from 1.
  JavaScript numbers, here integers.
\<close>

record Range =
  startLineNumber :: int
  startColumn :: int
  endLineNumber :: int
  endColumn :: int

text \<open>
  Modelled from the spec: \<open>Range.isEmpty\<close>, whose source is absent; a range is empty when
  it starts where it ends.
\<close>

definition isEmpty :: "Range \<Rightarrow> bool" where
  "isEmpty rng =
     (startLineNumber rng = endLineNumber rng \<and> startColumn rng = endColumn rng)"

text \<open>
  Modelled from the spec: \<open>findTokenIndexAtOffset\<close> of the absent token table, the index
  of the token that holds an offset: the first token whose end offset lies behind the
  offset, and the last token when there is none (0 for a table without tokens).
\<close>

fun findIndexInTokensArray :: "(int \<times> TokenMetadata) list \<Rightarrow> int \<Rightarrow> nat" where
  "findIndexInTokensArray [] desiredIndex = 0"
| "findIndexInTokensArray [t] desiredIndex = 0"
| "findIndexInTokensArray (t # ts) desiredIndex =
     (if desiredIndex < fst t then 0 else Suc (findIndexInTokensArray ts desiredIndex))"

definition findTokenIndexAtOffset :: "LineTokens \<Rightarrow> int \<Rightarrow> nat" where
  "findTokenIndexAtOffset tokens offset = findIndexInTokensArray (lt_tokens tokens) offset"

text \<open>
  Modelled from the spec: \<open>LineTokens.sliceAndInflate\<close>, whose source is absent, "slicing
  the line's token stream to the relevant character range". The slice holds the text
  between the two offsets and the tokens from the one at the start offset up to the last
  that starts before the end offset; their end offsets are cut at the end offset and
  counted from the start offset, plus \<open>deltaOffset\<close> (0 in every call of the source).
\<close>

definition sliceAndInflate :: "LineTokens \<Rightarrow> int \<Rightarrow> int \<Rightarrow> int \<Rightarrow> LineTokens" where
  "sliceAndInflate tokens startOffset endOffset deltaOffset =
    (let firstTokenIndex = findTokenIndexAtOffset tokens startOffset;
         tokenIndices = takeWhile (\<lambda>tokenIndex. getStartOffset tokens tokenIndex < endOffset)
                          [firstTokenIndex ..< getCount tokens]
     in \<lparr>lt_tokens =
           map (\<lambda>tokenIndex.
                  (min endOffset (getEndOffset tokens tokenIndex) - startOffset + deltaOffset,
                   getMetadata tokens tokenIndex))
               tokenIndices,
         lt_text = substring (lt_text tokens) startOffset endOffset\<rparr>)"

text \<open>
  Modelled from the spec: \<open>LineTokens.createEmpty\<close>, whose source is absent. The spec
  calls its result for the empty string "the empty string with an empty token set": a
  table without tokens over the given text.
\<close>

definition createEmpty :: "string \<Rightarrow> LineTokens" where
  "createEmpty lineContent = \<lparr>lt_tokens = [], lt_text = lineContent\<rparr>"

text \<open>
  Modelled from the spec: \<open>ScopedLineTokens\<close> (vs/editor/common/languages/supports), whose
  source is absent: "the sub-range of a line governed by a single language id". The record
  holds the line, the language id of the scope and the offsets in the line where the scope
  starts and ends.
\<close>

record ScopedLineTokens =
  sc_actual :: LineTokens
  sc_languageId :: string
  sc_firstCharOffset :: int
  sc_lastCharOffset :: int

text \<open>
  Modelled from the spec: \<open>ScopedLineTokens.getLineContent\<close>, the text of the line within
  the scope.
\<close>

definition scopeGetLineContent :: "ScopedLineTokens \<Rightarrow> string" where
  "scopeGetLineContent scopedLineTokens =
     substring (getLineContent (sc_actual scopedLineTokens))
       (sc_firstCharOffset scopedLineTokens) (sc_lastCharOffset scopedLineTokens)"

text \<open>
  Modelled from the spec: \<open>ScopedLineTokens.doesScopeStartAtOffsetZero\<close>, "the current scope
  starts at column offset 0 on its own line": the start offset of the scope within its
  line is 0.
\<close>

definition doesScopeStartAtOffsetZero :: "ScopedLineTokens \<Rightarrow> bool" where
  "doesScopeStartAtOffsetZero scopedLineTokens = (sc_firstCharOffset scopedLineTokens = 0)"

text \<open>
  Modelled from the spec: \<open>createScopedLineTokens\<close>, whose source is absent. The scope at
  an offset of a line is the longest run of neighbouring tokens around the token at the
  offset that have the language id of that token; it starts where its first token starts
  and ends where its last token ends. A table without tokens gives the empty scope at
  offset 0.
\<close>

definition createScopedLineTokens :: "LineTokens \<Rightarrow> int \<Rightarrow> ScopedLineTokens" where
  "createScopedLineTokens context offset =
    (let tokenIndex = findTokenIndexAtOffset context offset;
         desiredLanguageId = getLanguageId context tokenIndex;
         hasDesiredLanguage = (\<lambda>token. md_languageId (snd token) = desiredLanguageId);
         lastTokenIndex =
           tokenIndex
             + length (takeWhile hasDesiredLanguage (drop (Suc tokenIndex) (lt_tokens context)));
         firstTokenIndex =
           tokenIndex
             - length (takeWhile hasDesiredLanguage (rev (take tokenIndex (lt_tokens context))))
     in \<lparr>sc_actual = context,
         sc_languageId = desiredLanguageId,
         sc_firstCharOffset = getStartOffset context firstTokenIndex,
         sc_lastCharOffset =
           (if getCount context = 0 then 0 else getEndOffset context lastTokenIndex)\<rparr>)"

text \<open>
  The text model is a parameter of the model: \<open>model.tokenization.getLineTokens\<close> and
  \<open>model.getLineMaxColumn\<close>. Its lines are tokenized already, so \<open>forceTokenization\<close>
  changes nothing.
\<close>

record TextModel =
  getLineTokens :: "int \<Rightarrow> LineTokens"
  getLineMaxColumn :: "int \<Rightarrow> int"

text \<open>Lines 111-119.\<close>

definition getProcessedTextBeforeRange ::
  "TextModel \<Rightarrow> LanguageConfigurationService \<Rightarrow> Range \<Rightarrow> ScopedLineTokens \<Rightarrow> ProcessedLineData" where
  "getProcessedTextBeforeRange model languageConfigurationService rng scopedLineTokens =
    (let lineTokens = getLineTokens model (startLineNumber rng);
         columnIndexWithinScope = (startColumn rng - 1) - sc_firstCharOffset scopedLineTokens;
         firstCharacterOffset = sc_firstCharOffset scopedLineTokens;
         lastCharacterOffset = sc_firstCharOffset scopedLineTokens + columnIndexWithinScope;
         slicedTokensBefore =
           sliceAndInflate lineTokens firstCharacterOffset lastCharacterOffset 0
     in getProcessedLineAndTokens languageConfigurationService slicedTokensBefore)"

text \<open>Lines 121-137.\<close>

definition getProcessedTextAfterRange ::
  "TextModel \<Rightarrow> LanguageConfigurationService \<Rightarrow> Range \<Rightarrow> ScopedLineTokens \<Rightarrow> ProcessedLineData" where
  "getProcessedTextAfterRange model languageConfigurationService rng scopedLineTokens =
    (let columnIndexWithinScope =
           (if isEmpty rng then (startColumn rng - 1) - sc_firstCharOffset scopedLineTokens
            else (endColumn rng - 1) - sc_firstCharOffset scopedLineTokens);
         lineTokens =
           (if isEmpty rng then getLineTokens model (startLineNumber rng)
            else getLineTokens model (endLineNumber rng));
         scopedLineContent = scopeGetLineContent scopedLineTokens;
         firstCharacterOffset = sc_firstCharOffset scopedLineTokens + columnIndexWithinScope;
         lastCharacterOffset =
           sc_firstCharOffset scopedLineTokens + int (length scopedLineContent);
         slicedTokensAfter =
           sliceAndInflate lineTokens firstCharacterOffset lastCharacterOffset 0
     in getProcessedLineAndTokens languageConfigurationService slicedTokensAfter)"

text \<open>Lines 142-148.\<close>

definition getScopedLineTokensAtEndColumnOfLine :: "TextModel \<Rightarrow> int \<Rightarrow> ScopedLineTokens" where
  "getScopedLineTokensAtEndColumnOfLine model lineNumber =
    (let lineTokens = getLineTokens model lineNumber;
         endColumnOfLine = getLineMaxColumn model lineNumber - 1
     in createScopedLineTokens lineTokens endColumnOfLine)"

text \<open>Lines 149-156.\<close>

definition getSlicedLineTokensForScopeAtLine ::
  "TextModel \<Rightarrow> ScopedLineTokens \<Rightarrow> int \<Rightarrow> LineTokens" where
  "getSlicedLineTokensForScopeAtLine model scopedLineTokens lineNumber =
    (let initialLine = getLineTokens model lineNumber;
         scopedLine = scopeGetLineContent scopedLineTokens;
         firstCharacterOffset = sc_firstCharOffset scopedLineTokens;
         lastCharacterOffset = firstCharacterOffset + int (length scopedLine)
     in sliceAndInflate initialLine firstCharacterOffset lastCharacterOffset 0)"

text \<open>\<open>_getProcessedPreviousLine\<close>, lines 158-176.\<close>

definition getProcessedPreviousLine ::
  "TextModel \<Rightarrow> LanguageConfigurationService \<Rightarrow> Range \<Rightarrow> ScopedLineTokens \<Rightarrow> ProcessedLineData" where
  "getProcessedPreviousLine model languageConfigurationService rng scopedLineTokens =
    (let nullProcessedData =
           \<lparr>processedLine = [], processedLineTokens = createEmpty []\<rparr>;
         previousLineNumber = startLineNumber rng - 1;
         isFirstLine = (previousLineNumber = 0)
     in if isFirstLine then nullProcessedData
        else
          (let canScopeExtendOnPreviousLine = doesScopeStartAtOffsetZero scopedLineTokens
           in if \<not> canScopeExtendOnPreviousLine then nullProcessedData
              else
                (let scopedLineTokensAtEndColumnOfPreviousLine =
                       getScopedLineTokensAtEndColumnOfLine model previousLineNumber;
                     doesLanguageContinueOnPreviousLine =
                       (sc_languageId scopedLineTokens =
                          sc_languageId scopedLineTokensAtEndColumnOfPreviousLine)
                 in if \<not> doesLanguageContinueOnPreviousLine then nullProcessedData
                    else
                      (let previousSlicedLineTokens =
                             getSlicedLineTokensForScopeAtLine model
                               scopedLineTokensAtEndColumnOfPreviousLine previousLineNumber
                       in getProcessedLineAndTokens languageConfigurationService
                            previousSlicedLineTokens))))"

record ProcessedContext =
  beforeRangeProcessedData :: ProcessedLineData
  afterRangeProcessedData :: ProcessedLineData
  previousLineProcessedData :: ProcessedLineData

text \<open>\<open>getProcessedContextAroundRange\<close>, lines 97-109.\<close>

definition getProcessedContextAroundRange ::
  "TextModel \<Rightarrow> LanguageConfigurationService \<Rightarrow> Range \<Rightarrow> ProcessedContext" where
  "getProcessedContextAroundRange model languageConfigurationService rng =
    (let lineTokens = getLineTokens model (startLineNumber rng);
         scopedLineTokens = createScopedLineTokens lineTokens (startColumn rng - 1)
     in \<lparr>beforeRangeProcessedData =
           getProcessedTextBeforeRange model languageConfigurationService rng scopedLineTokens,
         afterRangeProcessedData =
           getProcessedTextAfterRange model languageConfigurationService rng scopedLineTokens,
         previousLineProcessedData =
           getProcessedPreviousLine model languageConfigurationService rng scopedLineTokens\<rparr>)"

subsection \<open>Concrete lines and bracket configurations\<close>

text \<open>The brackets \<open>{open: ["("], close: [")"]}\<close> for every language.\<close>

definition parenService :: LanguageConfigurationService where
  "parenService = (\<lambda>languageId. Some [\<lparr>rb_open = [''(''], rb_close = ['')'']\<rparr>])"

text \<open>No bracket configuration for any language.\<close>

definition noBracketsService :: LanguageConfigurationService where
  "noBracketsService = (\<lambda>languageId. None)"

text \<open>
  The pairs \<open>["<!--", "-->"]\<close> and \<open>["<", ">"]\<close>, in this order and in the other.
\<close>

definition htmlBrackets :: "RichEditBracket list" where
  "htmlBrackets = [\<lparr>rb_open = [''<!--''], rb_close = [''-->'']\<rparr>,
                   \<lparr>rb_open = [''<''], rb_close = [''>'']\<rparr>]"

definition htmlBracketsSwapped :: "RichEditBracket list" where
  "htmlBracketsSwapped = [\<lparr>rb_open = [''<''], rb_close = [''>'']\<rparr>,
                          \<lparr>rb_open = [''<!--''], rb_close = [''-->'']\<rparr>]"

definition htmlService :: LanguageConfigurationService where
  "htmlService = (\<lambda>languageId. Some htmlBrackets)"

definition htmlServiceSwapped :: LanguageConfigurationService where
  "htmlServiceSwapped = (\<lambda>languageId. Some htmlBracketsSwapped)"

text \<open>The pairs \<open>["(", ")"]\<close> and \<open>["[", "]"]\<close>, in this order and in the other.\<close>

definition roundSquareBrackets :: "RichEditBracket list" where
  "roundSquareBrackets = [\<lparr>rb_open = [''(''], rb_close = ['')'']\<rparr>,
                          \<lparr>rb_open = [''[''], rb_close = ['']'']\<rparr>]"

definition squareRoundBrackets :: "RichEditBracket list" where
  "squareRoundBrackets = [\<lparr>rb_open = [''[''], rb_close = ['']'']\<rparr>,
                          \<lparr>rb_open = [''(''], rb_close = ['')'']\<rparr>]"

definition roundSquareService :: LanguageConfigurationService where
  "roundSquareService = (\<lambda>languageId. Some roundSquareBrackets)"

definition squareRoundService :: LanguageConfigurationService where
  "squareRoundService = (\<lambda>languageId. Some squareRoundBrackets)"

definition stringMetadata :: TokenMetadata where
  "stringMetadata = \<lparr>md_languageId = ''typescript'', md_tokenType = String\<rparr>"

definition otherMetadata :: TokenMetadata where
  "otherMetadata = \<lparr>md_languageId = ''typescript'', md_tokenType = Other\<rparr>"

definition commentMetadata :: TokenMetadata where
  "commentMetadata = \<lparr>md_languageId = ''html'', md_tokenType = Comment\<rparr>"

text \<open>The line \<open>a(b)c\<close>, one token of type \<open>String\<close>.\<close>

definition stringLine :: LineTokens where
  "stringLine = \<lparr>lt_tokens = [(5, stringMetadata)], lt_text = ''a(b)c''\<rparr>"

text \<open>The line \<open>a(b)c;x\<close>: the \<open>String\<close> token \<open>a(b)c\<close>, then the token \<open>;x\<close> of type \<open>Other\<close>.\<close>

definition stringThenOtherLine :: LineTokens where
  "stringThenOtherLine =
     \<lparr>lt_tokens = [(5, stringMetadata), (7, otherMetadata)], lt_text = ''a(b)c;x''\<rparr>"

text \<open>The line \<open><!--x-->\<close>, one token of type \<open>Comment\<close>.\<close>

definition commentLine :: LineTokens where
  "commentLine = \<lparr>lt_tokens = [(8, commentMetadata)], lt_text = ''<!--x-->''\<rparr>"

text \<open>
  The line \<open>(h)a(b)c\<close> of two scopes: the \<open>String\<close> token \<open>(h)\<close> of language \<open>html\<close>,
  then the \<open>String\<close> token \<open>a(b)c\<close> of language \<open>typescript\<close>.
\<close>

definition htmlStringMetadata :: TokenMetadata where
  "htmlStringMetadata = \<lparr>md_languageId = ''html'', md_tokenType = String\<rparr>"

definition mixedLine :: LineTokens where
  "mixedLine =
     \<lparr>lt_tokens = [(3, htmlStringMetadata), (8, stringMetadata)], lt_text = ''(h)a(b)c''\<rparr>"

text \<open>
  A text model whose line 2 is \<open>a(b)c\<close>, one \<open>String\<close> token of language \<open>typescript\<close>,
  and whose other lines are \<open>(h)a(b)c\<close>; the maximal column of a line is its length
  plus 1.
\<close>

definition threeLineModel :: TextModel where
  "threeLineModel =
     \<lparr>getLineTokens = (\<lambda>lineNumber. if lineNumber = 2 then stringLine else mixedLine),
      getLineMaxColumn = (\<lambda>lineNumber. if lineNumber = 2 then 6 else 9)\<rparr>"

text \<open>The empty range at the start of line 2.\<close>

definition secondLineRange :: Range where
  "secondLineRange = \<lparr>startLineNumber = 2, startColumn = 1, endLineNumber = 2, endColumn = 1\<rparr>"

text \<open>The empty range at column 5 of line 3, inside the token \<open>a(b)c\<close>.\<close>

definition thirdLineRange :: Range where
  "thirdLineRange = \<lparr>startLineNumber = 3, startColumn = 5, endLineNumber = 3, endColumn = 5\<rparr>"

section \<open>Properties of the selector scorer\<close>

lemmas gate_defs = scoreOne_def schemeGate_def languageGate_def patternGate_def

lemma truthy_bool_iff: "truthy_bool b \<longleftrightarrow> b = Some True"
  by (cases b) auto

lemma scoreOne_range: "scoreOne G sch lang pat u cl \<in> {0, 5, 10}"
  by (auto simp: gate_defs split: option.splits if_splits)

lemma notebookScoreOf_range: "notebookScoreOf G nbc info \<in> {0, 5, 10}"
  using scoreOne_range by (cases nbc) simp_all

text \<open>The filter branch of \<open>score\<close> with its local variables substituted.\<close>

lemma score_filter_unfold:
  "score G (SelFilter f) u cl sy nb =
     (if \<not> sy \<and> hasAccessToAllModels f \<noteq> Some True then 0
      else if truthy_notebook (notebook f) then
        (case nb of None \<Rightarrow> 0
         | Some info \<Rightarrow>
             if notebookScoreOf G (the (notebook f)) info = 0 then 0
             else if \<not> truthy_string (scheme f) \<and> \<not> truthy_string (language f)
                     \<and> \<not> truthy_pattern (pattern f)
               then notebookScoreOf G (the (notebook f)) info
             else if scoreOne G (scheme f) (language f) (pattern f) u cl = 0 then 0
             else max (notebookScoreOf G (the (notebook f)) info)
                      (scoreOne G (scheme f) (language f) (pattern f) u cl))
      else scoreOne G (scheme f) (language f) (pattern f) u cl)"
  by (simp add: truthy_bool_iff Let_def split: option.splits)

lemma score_range_aux:
  "score G sel u cl sy nb \<in> {0, 5, 10}"
  "ret \<in> {0, 5, 10} \<Longrightarrow> fst (score_loop G ret fs u cl sy nb) \<in> {0, 5, 10}"
proof (induction G sel u cl sy nb and G ret fs u cl sy nb rule: score_score_loop.induct)
  case (1 G fs u cl sy nb)
  then show ?case by simp
next
  case (2 G s u cl sy nb)
  then show ?case by simp
next
  case (3 G f u cl sy nb)
  have a: "scoreOne G (scheme f) (language f) (pattern f) u cl \<in> {0, 5, 10}"
    by (rule scoreOne_range)
  show ?case
  proof (cases nb)
    case None
    with a show ?thesis unfolding score_filter_unfold by simp
  next
    case (Some info)
    have b: "notebookScoreOf G (the (notebook f)) info \<in> {0, 5, 10}"
      by (rule notebookScoreOf_range)
    from a b Some show ?thesis unfolding score_filter_unfold by auto
  qed
next
  case (4 G u cl sy nb)
  then show ?case by simp
next
  case (5 G ret u cl sy nb)
  then show ?case by simp
next
  case (6 G ret f fs u cl sy nb)
  then show ?case
    by (auto simp: Let_def split: prod.splits if_splits)
qed

lemma score_le_10: "score G sel u cl sy nb \<le> 10"
  using score_range_aux(1)[of G sel u cl sy nb] by auto

text \<open>
  C10. For every selector (a string, a filter, an array, or undefined) and every candidate,
  \<open>score\<close> returns 0, 5 or 10, whatever the glob matcher answers.
\<close>

theorem score_in_0_5_10: "score G sel u cl sy nb \<in> {0, 5, 10}"
  by (rule score_range_aux(1))

text \<open>
  C3, as stated, fails for a field that is present as the empty string: the source tests
  \<open>if (scheme)\<close>, and the empty string is falsy, so the block is skipped and there is no
  veto. The scheme \<open>""\<close> is present and is neither the candidate's scheme \<open>http\<close> nor
  the wildcard, and \<open>_scoreOne("", "rust", undefined, uri, "rust")\<close> is 10, not 0.
\<close>

theorem scoreOne_empty_scheme_counterexample:
  "uri_scheme httpUri = ''http''
   \<and> [] \<noteq> uri_scheme httpUri
   \<and> [] \<noteq> ''*''
   \<and> scoreOne exampleGlobEnv (Some []) (Some ''rust'') None httpUri ''rust'' = 10"
  by (simp add: gate_defs httpUri_def)

text \<open>
  C3, amended. In \<open>_scoreOne\<close> each of scheme, language and pattern is a veto: a field
  that is present, is not the empty string, and fails to match (for scheme and language:
  is neither equal to the candidate's value nor the wildcard \<open>*\<close>; for pattern: neither
  equals the candidate's path nor matches it as a glob) makes the result 0, whatever the
  other fields are. In particular \<open>score({scheme: "file", language: "rust"}, uri, "rust",
  true, undefined)\<close> is 0 for every URI whose scheme is \<open>http\<close>. (\<open>truthy_string\<close> holds
  of a string that is present and not empty, \<open>truthy_pattern\<close> of such a string and of
  every relative-pattern object.)
\<close>

theorem scoreOne_veto_gates:
  "(truthy_string sch \<and> the sch \<noteq> uri_scheme u \<and> the sch \<noteq> ''*''
      \<longrightarrow> scoreOne G sch lang pat u cl = 0)
   \<and> (truthy_string lang \<and> the lang \<noteq> cl \<and> the lang \<noteq> ''*''
      \<longrightarrow> scoreOne G sch lang pat u cl = 0)
   \<and> (truthy_pattern pat \<and> \<not> patternMatches G (normalizedPattern G (the pat)) (uri_fsPath u)
      \<longrightarrow> scoreOne G sch lang pat u cl = 0)
   \<and> (uri_scheme u = ''http''
      \<longrightarrow> score G (SelFilter rustFileFilter) u ''rust'' True None = 0)"
  by (auto simp: gate_defs rustFileFilter_def split: option.splits)

theorem scoreOne_veto_gates_witness:
  "uri_scheme httpUri = ''http''
   \<and> truthy_string (Some ''file'') \<and> the (Some ''file'') \<noteq> uri_scheme httpUri
   \<and> the (Some ''file'') \<noteq> ''*''
   \<and> scoreOne exampleGlobEnv (Some ''file'') (Some ''rust'') None httpUri ''rust'' = 0
   \<and> score exampleGlobEnv (SelFilter rustFileFilter) httpUri ''rust'' True None = 0"
  using scoreOne_veto_gates
          [of "Some ''file''" httpUri exampleGlobEnv "Some ''rust''" None "''rust''"]
  by (simp add: httpUri_def)

text \<open>
  C2, as stated, fails: the filter \<open>{notebook: "jupyter-notebook"}\<close> sets none of scheme,
  language and pattern and its notebook sub-score against a jupyter notebook is 10, but
  against a candidate that is not synchronized the score is 0 (line 69), not the notebook
  sub-score.
\<close>

theorem score_notebook_unsynchronized_counterexample:
  "truthy_notebook (notebook jupyterFilter)
   \<and> \<not> truthy_string (scheme jupyterFilter) \<and> \<not> truthy_string (language jupyterFilter)
   \<and> \<not> truthy_pattern (pattern jupyterFilter)
   \<and> notebookScoreOf exampleGlobEnv (the (notebook jupyterFilter)) jupyterInfo = 10
   \<and> score exampleGlobEnv (SelFilter jupyterFilter) fileUri ''python'' False (Some jupyterInfo) = 0"
  by (simp add: jupyterFilter_def jupyterInfo_def gate_defs)

text \<open>
  C2, amended. Call a field set when it is present and not the empty string (a
  \<open>NotebookFilter\<close> object and a relative-pattern object are always set; this is
  \<open>truthy_notebook\<close>, \<open>truthy_string\<close>, \<open>truthy_pattern\<close>). For every filter whose
  notebook clause is set: without a notebook association of the candidate the score is 0;
  if the notebook sub-score is 0 the score is 0; if the candidate is not synchronized and
  the filter has not \<open>hasAccessToAllModels: true\<close> the score is 0; and if the candidate is
  synchronized or the filter has \<open>hasAccessToAllModels: true\<close>, then the score is the
  notebook sub-score when none of scheme, language and pattern is set, and otherwise it is
  0 when the document sub-score is 0 and the maximum of the two sub-scores when both are
  nonzero.
\<close>

theorem score_notebook_clause:
  assumes "truthy_notebook (notebook f)"
  shows "score G (SelFilter f) u cl sy None = 0
   \<and> (notebookScoreOf G (the (notebook f)) info = 0 \<longrightarrow> score G (SelFilter f) u cl sy (Some info) = 0)
   \<and> (\<not> sy \<and> hasAccessToAllModels f \<noteq> Some True \<longrightarrow> score G (SelFilter f) u cl sy (Some info) = 0)
   \<and> (sy \<or> hasAccessToAllModels f = Some True \<longrightarrow>
        (if \<not> truthy_string (scheme f) \<and> \<not> truthy_string (language f) \<and> \<not> truthy_pattern (pattern f)
         then score G (SelFilter f) u cl sy (Some info) = notebookScoreOf G (the (notebook f)) info
         else (scoreOne G (scheme f) (language f) (pattern f) u cl = 0
                 \<longrightarrow> score G (SelFilter f) u cl sy (Some info) = 0)
            \<and> (notebookScoreOf G (the (notebook f)) info \<noteq> 0
                 \<and> scoreOne G (scheme f) (language f) (pattern f) u cl \<noteq> 0
                 \<longrightarrow> score G (SelFilter f) u cl sy (Some info) =
                       max (notebookScoreOf G (the (notebook f)) info)
                           (scoreOne G (scheme f) (language f) (pattern f) u cl))))"
  using assms unfolding score_filter_unfold by auto

theorem score_notebook_clause_witness:
  "truthy_notebook (notebook jupyterAnyLanguageFilter)
   \<and> notebookScoreOf exampleGlobEnv (the (notebook jupyterAnyLanguageFilter)) jupyterInfo = 10
   \<and> scoreOne exampleGlobEnv (scheme jupyterAnyLanguageFilter) (language jupyterAnyLanguageFilter)
        (pattern jupyterAnyLanguageFilter) fileUri ''python'' = 5
   \<and> score exampleGlobEnv (SelFilter jupyterAnyLanguageFilter) fileUri ''python'' True
        (Some jupyterInfo) = 10"
proof -
  have h: "truthy_notebook (notebook jupyterAnyLanguageFilter)"
    by (simp add: jupyterAnyLanguageFilter_def)
  have n: "notebookScoreOf exampleGlobEnv (the (notebook jupyterAnyLanguageFilter)) jupyterInfo = 10"
    by (simp add: jupyterAnyLanguageFilter_def jupyterInfo_def gate_defs)
  have d: "scoreOne exampleGlobEnv (scheme jupyterAnyLanguageFilter)
             (language jupyterAnyLanguageFilter) (pattern jupyterAnyLanguageFilter)
             fileUri ''python'' = 5"
    by (simp add: jupyterAnyLanguageFilter_def gate_defs)
  have t: "truthy_string (language jupyterAnyLanguageFilter)"
    by (simp add: jupyterAnyLanguageFilter_def)
  from score_notebook_clause [OF h, of exampleGlobEnv fileUri "''python''" True jupyterInfo] n d t h
  show ?thesis by simp
qed

text \<open>
  C5, as stated, fails: the filter \<open>{hasAccessToAllModels: true, language: "*"}\<close> scores 10,
  not 5, against a candidate that is not synchronized and whose language id is the string
  \<open>*\<close>, because \<open>_scoreOne\<close> tests \<open>language === candidateLanguage\<close> first (line 120).
\<close>

theorem score_star_language_counterexample:
  "hasAccessToAllModels starFilter = Some True \<and> language starFilter = Some ''*''
   \<and> \<not> truthy_string (scheme starFilter) \<and> \<not> truthy_pattern (pattern starFilter)
   \<and> \<not> truthy_notebook (notebook starFilter)
   \<and> score exampleGlobEnv (SelFilter starFilter) fileUri ''*'' False None = 10"
  by (simp add: starFilter_def gate_defs)

text \<open>
  C5, amended. Against a candidate that is not synchronized every string selector scores
  0 and every filter without \<open>hasAccessToAllModels: true\<close> scores 0; a filter with
  \<open>hasAccessToAllModels: true\<close>, \<open>language: "*"\<close> and neither scheme nor pattern nor
  notebook scores 5 if the candidate's language id is not \<open>*\<close> (and 10 if it is).
\<close>

theorem score_not_synchronized:
  "score G (SelString s) u cl False nb = 0
   \<and> (hasAccessToAllModels f \<noteq> Some True \<longrightarrow> score G (SelFilter f) u cl False nb = 0)
   \<and> (hasAccessToAllModels f = Some True \<and> language f = Some ''*''
       \<and> \<not> truthy_string (scheme f) \<and> \<not> truthy_pattern (pattern f)
       \<and> \<not> truthy_notebook (notebook f)
       \<longrightarrow> score G (SelFilter f) u cl False nb = (if cl = ''*'' then 10 else 5))"
  unfolding score_filter_unfold by (auto simp: gate_defs)

theorem score_not_synchronized_witness:
  "hasAccessToAllModels starFilter = Some True \<and> language starFilter = Some ''*''
   \<and> \<not> truthy_string (scheme starFilter) \<and> \<not> truthy_pattern (pattern starFilter)
   \<and> \<not> truthy_notebook (notebook starFilter)
   \<and> score exampleGlobEnv (SelString ''rust'') fileUri ''rust'' False None = 0
   \<and> score exampleGlobEnv (SelFilter starFilter) fileUri ''rust'' False None = 5"
  using score_not_synchronized [of exampleGlobEnv "''rust''" fileUri "''rust''" None starFilter]
  by (simp add: starFilter_def)

lemma score_loop_no_10:
  "\<forall>g \<in> set fs. score G g u cl sy nb \<noteq> 10 \<Longrightarrow>
   score_loop G ret fs u cl sy nb = (Max (insert ret ((\<lambda>g. score G g u cl sy nb) ` set fs)), fs)"
proof (induction fs arbitrary: ret)
  case Nil
  then show ?case by simp
next
  case (Cons f fs)
  let ?S = "(\<lambda>g. score G g u cl sy nb) ` set fs"
  let ?v = "score G f u cl sy nb"
  have fin: "finite ?S" by simp
  have m: "Max (insert (if ret < ?v then ?v else ret) ?S) = Max (insert ret (insert ?v ?S))"
  proof (cases "?S = {}")
    case True
    then show ?thesis by (simp add: max_def)
  next
    case False
    with fin show ?thesis by (simp add: max_def)
  qed
  from Cons.prems have "\<forall>g \<in> set fs. score G g u cl sy nb \<noteq> 10" "?v \<noteq> 10" by simp_all
  with Cons.IH[of "if ret < ?v then ?v else ret"] m show ?case
    by (simp add: Let_def)
qed

lemma score_loop_first_10:
  assumes "\<forall>g \<in> set pre. score G g u cl sy nb \<noteq> 10" "score G f u cl sy nb = 10"
  shows "score_loop G ret (pre @ f # post) u cl sy nb = (10, pre @ [f])"
  using assms
proof (induction pre arbitrary: ret)
  case Nil
  then show ?case by simp
next
  case (Cons g pre)
  then show ?case by (simp add: Let_def)
qed

lemma Max_scores_10:
  assumes "f \<in> set fs" "score G f u cl sy nb = 10"
  shows "Max (insert 0 ((\<lambda>g. score G g u cl sy nb) ` set fs)) = 10"
proof (rule Max_eqI)
  show "finite (insert 0 ((\<lambda>g. score G g u cl sy nb) ` set fs))" by simp
  show "10 \<in> insert 0 ((\<lambda>g. score G g u cl sy nb) ` set fs)"
    using assms by force
  fix y assume "y \<in> insert 0 ((\<lambda>g. score G g u cl sy nb) ` set fs)"
  then show "y \<le> 10" using score_le_10 by auto
qed

text \<open>
  C4. The score of an array selector is the maximum of the scores of its elements, 0 for
  the empty array. The loop evaluates \<open>score\<close> on the elements in order and stops at the
  first that scores 10: if no element scores 10 every element is evaluated, and if \<open>f\<close> is
  the first element that scores 10 the result is 10 and the elements evaluated are those
  before \<open>f\<close> and \<open>f\<close>, none of those behind it.
\<close>

theorem score_array_max_short_circuit:
  "score G (SelArray fs) u cl sy nb = Max (insert 0 ((\<lambda>g. score G g u cl sy nb) ` set fs))
   \<and> score G (SelArray []) u cl sy nb = 0
   \<and> ((\<forall>g \<in> set fs. score G g u cl sy nb \<noteq> 10)
        \<longrightarrow> snd (score_loop G 0 fs u cl sy nb) = fs)
   \<and> ((\<forall>g \<in> set pre. score G g u cl sy nb \<noteq> 10) \<and> score G f u cl sy nb = 10
        \<longrightarrow> score G (SelArray (pre @ f # post)) u cl sy nb = 10
          \<and> snd (score_loop G 0 (pre @ f # post) u cl sy nb) = pre @ [f])"
proof -
  have "score G (SelArray fs) u cl sy nb = Max (insert 0 ((\<lambda>g. score G g u cl sy nb) ` set fs))"
  proof (cases "\<forall>g \<in> set fs. score G g u cl sy nb \<noteq> 10")
    case True
    then show ?thesis by (simp add: score_loop_no_10)
  next
    case False
    then have "\<exists>g \<in> set fs. score G g u cl sy nb = 10" by blast
    then obtain pre g post where sp: "fs = pre @ g # post" "score G g u cl sy nb = 10"
        "\<forall>h \<in> set pre. score G h u cl sy nb \<noteq> 10"
      using split_list_first_prop[of fs "\<lambda>g. score G g u cl sy nb = 10"] by blast
    have "g \<in> set fs" using sp(1) by simp
    from Max_scores_10[OF this sp(2)] score_loop_first_10[OF sp(3) sp(2), of 0 post] sp(1)
    show ?thesis by simp
  qed
  then show ?thesis
    by (simp add: score_loop_no_10 score_loop_first_10)
qed

theorem score_array_max_short_circuit_witness:
  "score exampleGlobEnv (SelString ''*'') fileUri ''rust'' True None = 5
   \<and> score exampleGlobEnv (SelString ''rust'') fileUri ''rust'' True None = 10
   \<and> score exampleGlobEnv (SelArray ([SelString ''*''] @ SelString ''rust'' # [SelUndefined]))
        fileUri ''rust'' True None = 10
   \<and> snd (score_loop exampleGlobEnv 0 ([SelString ''*''] @ SelString ''rust'' # [SelUndefined])
        fileUri ''rust'' True None) = [SelString ''*''] @ [SelString ''rust'']"
  using score_array_max_short_circuit
          [of exampleGlobEnv "[]" fileUri "''rust''" True None "[SelString ''*'']"
              "SelString ''rust''" "[SelUndefined]"]
  by simp








section \<open>Properties of the indentation line processor\<close>

lemmas line_defs =
  getProcessedLineAndTokens_def forEachCallback_def removeBracketsFromText_def
  openBracketsOf_def closedBracketsOf_def toUint32_def getLanguageId_def getCount_def
  getMetadata_def getEndOffset_def getStartOffset_def getStandardTokenType_def getTokenText_def
  getLineContent_def substring_def Let_def

text \<open>
  C1. The claim asks that the end offsets of the processed token table partition the
  processed line and that removing characters from a token lowers that token's own end
  offset. The source computes a token's processed end offset (line 263) before it adds the
  characters removed from that token to \<open>offset\<close> (line 270). So for the brackets
  \<open>(\<close> and \<open>)\<close> and the single \<open>String\<close> token \<open>a(b)c\<close> the processed line is \<open>abc\<close>, of
  length 3, and the processed end offset of the token is still 5; with a second token
  \<open>;x\<close> behind it, the end offset of the second token is shifted from 7 to 5 and that of
  the \<open>String\<close> token stays 5.
\<close>

theorem processed_end_offset_not_reduced:
  "getProcessedLineAndTokens parenService stringLine =
     \<lparr>processedLine = ''abc'',
      processedLineTokens = \<lparr>lt_tokens = [(5, stringMetadata)], lt_text = ''abc''\<rparr>\<rparr>
   \<and> getProcessedLineAndTokens parenService stringThenOtherLine =
     \<lparr>processedLine = ''abc;x'',
      processedLineTokens =
        \<lparr>lt_tokens = [(5, stringMetadata), (5, otherMetadata)], lt_text = ''abc;x''\<rparr>\<rparr>"
  by (simp add: line_defs parenService_def stringLine_def stringThenOtherLine_def
      stringMetadata_def otherMetadata_def upt_rec)

text \<open>
  C9. When the language of the token table has no bracket configuration,
  \<open>getProcessedLineAndTokens\<close> returns the line content and the token table it was given.
  The source has no \<open>throw\<close> on this path and the model is a total function, so a result
  is returned for every token table.
\<close>

theorem no_brackets_identity:
  assumes "languageConfigurationService (getLanguageId tokens 0) = None"
  shows "getProcessedLineAndTokens languageConfigurationService tokens =
           \<lparr>processedLine = getLineContent tokens, processedLineTokens = tokens\<rparr>"
  using assms by (simp add: getProcessedLineAndTokens_def)

theorem no_brackets_identity_witness:
  "noBracketsService (getLanguageId stringLine 0) = None
   \<and> getProcessedLineAndTokens noBracketsService stringLine =
       \<lparr>processedLine = ''a(b)c'', processedLineTokens = stringLine\<rparr>"
proof -
  have h: "noBracketsService (getLanguageId stringLine 0) = None"
    by (simp add: noBracketsService_def)
  from no_brackets_identity [of noBracketsService stringLine] h show ?thesis
    by (simp add: getLineContent_def stringLine_def)
qed

text \<open>Removing a bracket of one character is a filter; removing the empty bracket is nothing.\<close>

lemma removeOccurrences_single: "removeOccurrences [c] t = filter (\<lambda>x. x \<noteq> c) t"
  by (induction t) auto

lemma removeOccurrences_empty: "removeOccurrences [] t = t"
  by (induction t) auto

lemma removeOccurrences_short:
  assumes "length b \<le> 1"
  shows "removeOccurrences b t = filter (\<lambda>x. [x] \<noteq> b) t"
proof (cases b)
  case Nil
  then show ?thesis by (simp add: removeOccurrences_empty)
next
  case (Cons c cs)
  with assms have "b = [c]" by simp
  then show ?thesis by (simp add: removeOccurrences_single)
qed

lemma foldl_removeOccurrences_short:
  "\<forall>b \<in> set bs. length b \<le> 1 \<Longrightarrow>
   foldl (\<lambda>processedLine bracket. removeOccurrences bracket processedLine) t bs
     = filter (\<lambda>x. [x] \<notin> set bs) t"
proof (induction bs arbitrary: t)
  case Nil
  then show ?case by simp
next
  case (Cons b bs)
  then have "length b \<le> 1" "\<forall>b \<in> set bs. length b \<le> 1" by simp_all
  then show ?case
    using Cons.IH[of "removeOccurrences b t"]
    by (auto simp: removeOccurrences_short intro: filter_cong)
qed

lemma removeBracketsFromText_short:
  assumes "\<forall>b \<in> set (opens @ closes). length b \<le> 1"
  shows "removeBracketsFromText opens closes t
           = filter (\<lambda>x. [x] \<notin> set opens \<union> set closes) t"
  using assms
  by (auto simp: removeBracketsFromText_def foldl_removeOccurrences_short Let_def intro: filter_cong)

lemma forEachCallback_cong:
  assumes "\<And>t. removeBracketsFromText opens closes t = removeBracketsFromText opens' closes' t"
  shows "forEachCallback opens closes tokens = forEachCallback opens' closes' tokens"
  by (simp add: fun_eq_iff forEachCallback_def assms Let_def)

text \<open>
  C7, as stated, fails: the bracket pairs \<open>["<!--", "-->"]\<close> and \<open>["<", ">"]\<close> give the
  open brackets \<open><!--\<close>, \<open><\<close> and the close brackets \<open>-->\<close>, \<open>>\<close>; listed in the other
  order they give the same strings permuted. The \<open>Comment\<close> token \<open><!--x-->\<close> is processed
  to \<open>x\<close> in the first order and to \<open>!--x--\<close> in the second, where \<open><\<close> and \<open>>\<close> are
  removed first and \<open><!--\<close> and \<open>-->\<close> do not occur any more.
\<close>

theorem processedLine_bracket_order_counterexample:
  "mset (openBracketsOf htmlBracketsSwapped) = mset (openBracketsOf htmlBrackets)
   \<and> mset (closedBracketsOf htmlBracketsSwapped) = mset (closedBracketsOf htmlBrackets)
   \<and> processedLine (getProcessedLineAndTokens htmlService commentLine) = ''x''
   \<and> processedLine (getProcessedLineAndTokens htmlServiceSwapped commentLine) = ''!--x--''"
  by (simp add: line_defs htmlService_def htmlServiceSwapped_def htmlBrackets_def
      htmlBracketsSwapped_def commentLine_def commentMetadata_def)

text \<open>
  C7, amended. When no bracket string of the configuration is longer than one character,
  the processed line does not depend on the order of the open-bracket list and of the
  close-bracket list: two configurations whose open brackets are permutations of each other
  and whose close brackets are permutations of each other give the same processed line for
  every token table.
\<close>

theorem processedLine_bracket_order:
  assumes "svc (getLanguageId tokens 0) = Some brackets"
      and "svc' (getLanguageId tokens 0) = Some brackets'"
      and "mset (openBracketsOf brackets') = mset (openBracketsOf brackets)"
      and "mset (closedBracketsOf brackets') = mset (closedBracketsOf brackets)"
      and "\<forall>b \<in> set (openBracketsOf brackets @ closedBracketsOf brackets). length b \<le> 1"
  shows "processedLine (getProcessedLineAndTokens svc' tokens)
           = processedLine (getProcessedLineAndTokens svc tokens)"
proof -
  have so: "set (openBracketsOf brackets') = set (openBracketsOf brackets)"
    using assms(3) by (rule mset_eq_setD)
  have sc: "set (closedBracketsOf brackets') = set (closedBracketsOf brackets)"
    using assms(4) by (rule mset_eq_setD)
  have short': "\<forall>b \<in> set (openBracketsOf brackets' @ closedBracketsOf brackets'). length b \<le> 1"
    using assms(5) so sc by simp
  have "\<And>t. removeBracketsFromText (openBracketsOf brackets') (closedBracketsOf brackets') t
          = removeBracketsFromText (openBracketsOf brackets) (closedBracketsOf brackets) t"
    by (simp only: removeBracketsFromText_short[OF short'] removeBracketsFromText_short[OF assms(5)]
        so sc)
  then have "forEachCallback (openBracketsOf brackets') (closedBracketsOf brackets') tokens
             = forEachCallback (openBracketsOf brackets) (closedBracketsOf brackets) tokens"
    by (rule forEachCallback_cong)
  then show ?thesis
    using assms(1,2) by (simp add: getProcessedLineAndTokens_def Let_def)
qed

theorem processedLine_bracket_order_witness:
  "roundSquareService (getLanguageId stringLine 0) = Some roundSquareBrackets
   \<and> squareRoundService (getLanguageId stringLine 0) = Some squareRoundBrackets
   \<and> mset (openBracketsOf squareRoundBrackets) = mset (openBracketsOf roundSquareBrackets)
   \<and> mset (closedBracketsOf squareRoundBrackets) = mset (closedBracketsOf roundSquareBrackets)
   \<and> map length (openBracketsOf roundSquareBrackets @ closedBracketsOf roundSquareBrackets)
       = [1, 1, 1, 1]
   \<and> processedLine (getProcessedLineAndTokens roundSquareService stringLine) = ''abc''
   \<and> processedLine (getProcessedLineAndTokens squareRoundService stringLine) = ''abc''"
proof -
  have h1: "roundSquareService (getLanguageId stringLine 0) = Some roundSquareBrackets"
    by (simp add: roundSquareService_def)
  have h2: "squareRoundService (getLanguageId stringLine 0) = Some squareRoundBrackets"
    by (simp add: squareRoundService_def)
  have h3: "mset (openBracketsOf squareRoundBrackets) = mset (openBracketsOf roundSquareBrackets)"
    by (simp add: openBracketsOf_def squareRoundBrackets_def roundSquareBrackets_def)
  have h4: "mset (closedBracketsOf squareRoundBrackets) = mset (closedBracketsOf roundSquareBrackets)"
    by (simp add: closedBracketsOf_def squareRoundBrackets_def roundSquareBrackets_def)
  have h5: "\<forall>b \<in> set (openBracketsOf roundSquareBrackets @ closedBracketsOf roundSquareBrackets).
              length b \<le> 1"
    by (simp add: openBracketsOf_def closedBracketsOf_def roundSquareBrackets_def)
  have e: "processedLine (getProcessedLineAndTokens roundSquareService stringLine) = ''abc''"
    by (simp add: line_defs roundSquareService_def roundSquareBrackets_def stringLine_def
        stringMetadata_def)
  from processedLine_bracket_order
         [of roundSquareService stringLine roundSquareBrackets squareRoundService
             squareRoundBrackets]
       h1 h2 h3 h4 h5 e
  show ?thesis
    by (simp add: openBracketsOf_def closedBracketsOf_def roundSquareBrackets_def)
qed

lemmas context_defs =
  getProcessedContextAroundRange_def getProcessedPreviousLine_def
  getScopedLineTokensAtEndColumnOfLine_def getSlicedLineTokensForScopeAtLine_def
  createScopedLineTokens_def doesScopeStartAtOffsetZero_def scopeGetLineContent_def
  sliceAndInflate_def findTokenIndexAtOffset_def createEmpty_def

text \<open>
  C8, as stated, fails: when the three conditions hold the fragment is not the processed
  text of the previous line but that of the part of the previous line that lies in the
  language scope at the end of that line (lines 149-156 slice the line from
  \<open>firstCharOffset\<close> of that scope). In \<open>threeLineModel\<close> line 1 is \<open>(h)a(b)c\<close>, an
  \<open>html\<close> token followed by a \<open>typescript\<close> token, and line 2 is of language
  \<open>typescript\<close> from offset 0. For the range at the start of line 2 the previous line
  number is 1, the scope starts at offset 0 and the language at the end of line 1 is
  \<open>typescript\<close>; the fragment is \<open>abc\<close>, the processed text of line 1 is \<open>habc\<close>.
\<close>

theorem previous_line_scope_counterexample:
  "1 \<le> startLineNumber secondLineRange - 1
   \<and> doesScopeStartAtOffsetZero
         (createScopedLineTokens
            (getLineTokens threeLineModel (startLineNumber secondLineRange))
            (startColumn secondLineRange - 1))
   \<and> sc_languageId
         (createScopedLineTokens
            (getLineTokens threeLineModel (startLineNumber secondLineRange - 1))
            (getLineMaxColumn threeLineModel (startLineNumber secondLineRange - 1) - 1))
       = sc_languageId
           (createScopedLineTokens
              (getLineTokens threeLineModel (startLineNumber secondLineRange))
              (startColumn secondLineRange - 1))
   \<and> processedLine
         (previousLineProcessedData
            (getProcessedContextAroundRange threeLineModel parenService secondLineRange))
       = ''abc''
   \<and> processedLine
         (getProcessedLineAndTokens parenService
            (getLineTokens threeLineModel (startLineNumber secondLineRange - 1)))
       = ''habc''"
  by (simp add: context_defs line_defs threeLineModel_def secondLineRange_def parenService_def
      stringLine_def mixedLine_def stringMetadata_def htmlStringMetadata_def upt_rec)

text \<open>
  C8, amended. For a range that starts on line 1 or later, the previous-line fragment of
  \<open>getProcessedContextAroundRange\<close> is, when the three conditions hold (the previous line
  number is at least 1, the scope at the start of the range starts at offset 0 of its
  line, and the language id of the scope at the end of the previous line is that of the
  current scope), the processed text and tokens of the part of the previous line that lies
  in the scope at the end of that line; if any condition fails it is the empty string with
  an empty token set. In particular a scope whose start offset is not 0 gives the empty
  fragment, whatever the language of the previous line is.
\<close>

theorem previous_line_fragment:
  assumes "1 \<le> startLineNumber rng"
  shows "previousLineProcessedData (getProcessedContextAroundRange model svc rng) =
    (let scopedLineTokens =
           createScopedLineTokens (getLineTokens model (startLineNumber rng))
             (startColumn rng - 1);
         previousLineNumber = startLineNumber rng - 1;
         previousLine = getLineTokens model previousLineNumber;
         previousScope =
           createScopedLineTokens previousLine (getLineMaxColumn model previousLineNumber - 1)
     in if 1 \<le> previousLineNumber
           \<and> sc_firstCharOffset scopedLineTokens = 0
           \<and> sc_languageId previousScope = sc_languageId scopedLineTokens
        then getProcessedLineAndTokens svc
               (sliceAndInflate previousLine
                  (sc_firstCharOffset previousScope)
                  (sc_firstCharOffset previousScope
                     + int (length (scopeGetLineContent previousScope)))
                  0)
        else \<lparr>processedLine = [],
               processedLineTokens = \<lparr>lt_tokens = [], lt_text = []\<rparr>\<rparr>)
   \<and> (sc_firstCharOffset
          (createScopedLineTokens (getLineTokens model (startLineNumber rng))
             (startColumn rng - 1)) \<noteq> 0
        \<longrightarrow> previousLineProcessedData (getProcessedContextAroundRange model svc rng) =
              \<lparr>processedLine = [],
               processedLineTokens = \<lparr>lt_tokens = [], lt_text = []\<rparr>\<rparr>)"
proof -
  have "(startLineNumber rng - 1 = 0) = (\<not> 1 \<le> startLineNumber rng - 1)"
    using assms by arith
  then show ?thesis
    by (auto simp: getProcessedContextAroundRange_def getProcessedPreviousLine_def
        getScopedLineTokensAtEndColumnOfLine_def getSlicedLineTokensForScopeAtLine_def
        doesScopeStartAtOffsetZero_def createEmpty_def Let_def)
qed

theorem previous_line_fragment_witness:
  "1 \<le> startLineNumber secondLineRange
   \<and> previousLineProcessedData
       (getProcessedContextAroundRange threeLineModel parenService secondLineRange) =
     \<lparr>processedLine = ''abc'',
      processedLineTokens = \<lparr>lt_tokens = [(5, stringMetadata)], lt_text = ''abc''\<rparr>\<rparr>
   \<and> 1 \<le> startLineNumber thirdLineRange
   \<and> sc_firstCharOffset
         (createScopedLineTokens (getLineTokens threeLineModel (startLineNumber thirdLineRange))
            (startColumn thirdLineRange - 1)) = 3
   \<and> sc_languageId
         (createScopedLineTokens
            (getLineTokens threeLineModel (startLineNumber thirdLineRange - 1))
            (getLineMaxColumn threeLineModel (startLineNumber thirdLineRange - 1) - 1))
       = sc_languageId
           (createScopedLineTokens
              (getLineTokens threeLineModel (startLineNumber thirdLineRange))
              (startColumn thirdLineRange - 1))
   \<and> previousLineProcessedData
       (getProcessedContextAroundRange threeLineModel parenService thirdLineRange) =
     \<lparr>processedLine = [], processedLineTokens = \<lparr>lt_tokens = [], lt_text = []\<rparr>\<rparr>"
proof -
  have h2: "1 \<le> startLineNumber secondLineRange"
    by (simp add: secondLineRange_def)
  have h3: "1 \<le> startLineNumber thirdLineRange"
    by (simp add: thirdLineRange_def)
  from previous_line_fragment [OF h2, of threeLineModel parenService]
       previous_line_fragment [OF h3, of threeLineModel parenService]
  show ?thesis
    by (simp add: context_defs line_defs threeLineModel_def secondLineRange_def
        thirdLineRange_def parenService_def stringLine_def mixedLine_def stringMetadata_def
        htmlStringMetadata_def upt_rec)
qed

end
